theory Spec2Isabelle
  imports Complex_Main "HOL-Library.Product_Lexorder"
begin

section \<open>JavaScript values\<close>

text \<open>
  The routes of the terminal work on untyped JSON (\<open>any\<close> in the TypeScript). A number
  is an exact real or one of the three non-finite values of JavaScript; rounding,
  overflow and the sign of zero are not modelled.
\<close>

datatype jsnum = Fin real | NaN | PInf | NInf

datatype json =
    JUndefined
  | JNull
  | JBool bool
  | JNum jsnum
  | JStr string
  | JArr "json list"
  | JObj "(string \<times> json) list"

datatype js_error = TypeError string | Error string

subsection \<open>Arithmetic and comparison of numbers\<close>


fun jadd :: "jsnum \<Rightarrow> jsnum \<Rightarrow> jsnum" where
  "jadd (Fin a) (Fin b) = Fin (a + b)"
| "jadd NaN _ = NaN"
| "jadd _ NaN = NaN"
| "jadd PInf NInf = NaN"
| "jadd NInf PInf = NaN"
| "jadd PInf _ = PInf"
| "jadd NInf _ = NInf"
| "jadd _ PInf = PInf"
| "jadd _ NInf = NInf"


definition inf_of_sign :: "bool \<Rightarrow> jsnum" where
  "inf_of_sign positive = (if positive then PInf else NInf)"


text \<open>Division: a zero divisor gives an infinity or \<open>NaN\<close>, never an exception.\<close>

fun jdiv :: "jsnum \<Rightarrow> jsnum \<Rightarrow> jsnum" where
  "jdiv (Fin a) (Fin b) =
     (if b = 0 then (if a = 0 then NaN else inf_of_sign (0 < a)) else Fin (a / b))"
| "jdiv NaN _ = NaN"
| "jdiv _ NaN = NaN"
| "jdiv (Fin a) PInf = Fin 0"
| "jdiv (Fin a) NInf = Fin 0"
| "jdiv PInf (Fin b) = inf_of_sign (0 \<le> b)"
| "jdiv NInf (Fin b) = inf_of_sign (b < 0)"
| "jdiv _ _ = NaN"

text \<open>\<open>a > b\<close> and \<open>a < b\<close>: false as soon as one side is \<open>NaN\<close>.\<close>

fun jlt :: "jsnum \<Rightarrow> jsnum \<Rightarrow> bool" where
  "jlt (Fin a) (Fin b) = (a < b)"
| "jlt NaN _ = False"
| "jlt _ NaN = False"
| "jlt NInf b = (b \<noteq> NInf)"
| "jlt a PInf = (a \<noteq> PInf)"
| "jlt _ _ = False"




text \<open>\<open>Math.min\<close> and \<open>Math.max\<close> of two numbers: \<open>NaN\<close> if either is.\<close>

definition Math_min :: "jsnum \<Rightarrow> jsnum \<Rightarrow> jsnum" where
  "Math_min a b = (if a = NaN \<or> b = NaN then NaN else if jlt b a then b else a)"

definition Math_max :: "jsnum \<Rightarrow> jsnum \<Rightarrow> jsnum" where
  "Math_max a b = (if a = NaN \<or> b = NaN then NaN else if jlt a b then b else a)"


subsection \<open>Truthiness, \<open>??\<close>, \<open>typeof\<close> and property access\<close>

fun truthy :: "json \<Rightarrow> bool" where
  "truthy JUndefined = False"
| "truthy JNull = False"
| "truthy (JBool b) = b"
| "truthy (JNum n) = (n \<noteq> Fin 0 \<and> n \<noteq> NaN)"
| "truthy (JStr s) = (s \<noteq> [])"
| "truthy (JArr _) = True"
| "truthy (JObj _) = True"

fun nullish :: "json \<Rightarrow> bool" where
  "nullish JUndefined = True"
| "nullish JNull = True"
| "nullish _ = False"

text \<open>\<open>a ?? b\<close>\<close>

definition coalesce :: "json \<Rightarrow> json \<Rightarrow> json" where
  "coalesce a b = (if nullish a then b else a)"

fun typeof :: "json \<Rightarrow> string" where
  "typeof JUndefined = ''undefined''"
| "typeof JNull = ''object''"
| "typeof (JBool _) = ''boolean''"
| "typeof (JNum _) = ''number''"
| "typeof (JStr _) = ''string''"
| "typeof (JArr _) = ''object''"
| "typeof (JObj _) = ''object''"

text \<open>
  \<open>v.k\<close> on a value that is neither \<open>null\<close> nor \<open>undefined\<close>, for the property names the
  sources read (none of them is an index, \<open>length\<close> or a prototype member): only an object
  can hold one. An object is its list of entries in insertion order; the first entry of
  a key is the one that counts.
\<close>

fun get_prop :: "json \<Rightarrow> string \<Rightarrow> json" where
  "get_prop (JObj kvs) k = (case map_of kvs k of Some v \<Rightarrow> v | None \<Rightarrow> JUndefined)"
| "get_prop _ k = JUndefined"

text \<open>\<open>v?.k\<close>\<close>

definition opt_prop :: "json \<Rightarrow> string \<Rightarrow> json" where
  "opt_prop v k = (if nullish v then JUndefined else get_prop v k)"

text \<open>\<open>v.k\<close> where \<open>v\<close> may be \<open>null\<close> or \<open>undefined\<close>: a TypeError then.\<close>

definition must_prop :: "json \<Rightarrow> string \<Rightarrow> js_error + json" where
  "must_prop v k =
     (if nullish v then Inl (TypeError ''Cannot read properties of null or undefined'')
      else Inr (get_prop v k))"

text \<open>\<open>o[k] = v\<close> on the entries of an object: in place when the key exists, appended otherwise.\<close>

fun obj_set :: "(string \<times> json) list \<Rightarrow> string \<Rightarrow> json \<Rightarrow> (string \<times> json) list" where
  "obj_set [] k v = [(k, v)]"
| "obj_set ((k', v') # kvs) k v =
     (if k' = k then (k, v) # kvs else (k', v') # obj_set kvs k v)"

text \<open>The entries of an object literal \<open>{...base, k1: v1, ...}\<close> or \<open>{k1: v1, ..., ...more}\<close>.\<close>

definition obj_assign :: "(string \<times> json) list \<Rightarrow> (string \<times> json) list \<Rightarrow> (string \<times> json) list" where
  "obj_assign base more = foldl (\<lambda>acc (k, v). obj_set acc k v) base more"

fun digit_char :: "nat \<Rightarrow> char" where
  "digit_char n = (''0123456789'' ! (n mod 10))"

fun string_of_nat :: "nat \<Rightarrow> string" where
  "string_of_nat n = (if n < 10 then [digit_char n] else string_of_nat (n div 10) @ [digit_char n])"

declare string_of_nat.simps [simp del]

text \<open>
  The own enumerable properties \<open>{...v}\<close> copies: the entries of an object, the indexed
  elements of an array, the indexed characters of a string, nothing for the rest.
\<close>

fun spread :: "json \<Rightarrow> (string \<times> json) list" where
  "spread (JObj kvs) = kvs"
| "spread (JArr xs) = zip (map string_of_nat [0..<length xs]) xs"
| "spread (JStr s) = zip (map string_of_nat [0..<length s]) (map (\<lambda>c. JStr [c]) s)"
| "spread _ = []"


subsection \<open>\<open>Number(v)\<close>\<close>

text \<open>
  A string converts by the grammar of ECMAScript's StringToNumber: white space around
  the literal is dropped, the empty string is zero, a literal is a signed decimal with an
  optional fraction and exponent, \<open>Infinity\<close>, or an unsigned \<open>0x\<close>, \<open>0o\<close> or \<open>0b\<close> integer;
  everything else is \<open>NaN\<close>. Strings are ASCII here.
\<close>

definition is_ws :: "char \<Rightarrow> bool" where
  "is_ws c = (c \<in> set [CHR 0x09, CHR 0x0A, CHR 0x0B, CHR 0x0C, CHR 0x0D, CHR 0x20])"

definition trim :: "string \<Rightarrow> string" where
  "trim s = rev (dropWhile is_ws (rev (dropWhile is_ws s)))"

definition hex_val :: "char \<Rightarrow> nat option" where
  "hex_val c =
     (let n = (of_char c :: nat) in
      if 48 \<le> n \<and> n \<le> 57 then Some (n - 48)
      else if 97 \<le> n \<and> n \<le> 102 then Some (n - 87)
      else if 65 \<le> n \<and> n \<le> 70 then Some (n - 55)
      else None)"

definition is_digit_in :: "nat \<Rightarrow> char \<Rightarrow> bool" where
  "is_digit_in radix c = (case hex_val c of Some d \<Rightarrow> d < radix | None \<Rightarrow> False)"

definition digits_val :: "nat \<Rightarrow> string \<Rightarrow> nat" where
  "digits_val radix s = foldl (\<lambda>a c. radix * a + (case hex_val c of Some d \<Rightarrow> d | None \<Rightarrow> 0)) 0 s"

definition scale10 :: "real \<Rightarrow> int \<Rightarrow> real" where
  "scale10 x e = (if 0 \<le> e then x * 10 ^ nat e else x / 10 ^ nat (- e))"

definition parse_exponent :: "string \<Rightarrow> int option" where
  "parse_exponent s =
     (let neg = (take 1 s = ''-'');
          ds = (if take 1 s = ''-'' \<or> take 1 s = ''+'' then drop 1 s else s)
      in if ds \<noteq> [] \<and> list_all (is_digit_in 10) ds
         then Some (if neg then - int (digits_val 10 ds) else int (digits_val 10 ds))
         else None)"

definition parse_unsigned_decimal :: "string \<Rightarrow> real option" where
  "parse_unsigned_decimal s =
     (let ip = takeWhile (is_digit_in 10) s;
          r1 = dropWhile (is_digit_in 10) s;
          dot = (take 1 r1 = ''.'');
          fp = (if dot then takeWhile (is_digit_in 10) (drop 1 r1) else []);
          r2 = (if dot then dropWhile (is_digit_in 10) (drop 1 r1) else r1);
          ex = (if r2 = [] then Some 0
                else if take 1 r2 = ''e'' \<or> take 1 r2 = ''E'' then parse_exponent (drop 1 r2)
                else None)
      in if ip = [] \<and> fp = [] then None
         else (case ex of
                 None \<Rightarrow> None
               | Some e \<Rightarrow>
                   Some (scale10 (real (digits_val 10 ip) + real (digits_val 10 fp) / 10 ^ length fp) e)))"

definition parse_radix_literal :: "string \<Rightarrow> nat option" where
  "parse_radix_literal s =
     (let radix = (if take 2 s = ''0x'' \<or> take 2 s = ''0X'' then 16
                   else if take 2 s = ''0o'' \<or> take 2 s = ''0O'' then 8
                   else if take 2 s = ''0b'' \<or> take 2 s = ''0B'' then 2
                   else 0);
          ds = drop 2 s
      in if radix \<noteq> 0 \<and> ds \<noteq> [] \<and> list_all (is_digit_in radix) ds
         then Some (digits_val radix ds) else None)"

definition StringToNumber :: "string \<Rightarrow> jsnum" where
  "StringToNumber s =
     (let t = trim s in
      if t = [] then Fin 0
      else (case parse_radix_literal t of
              Some n \<Rightarrow> Fin (real n)
            | None \<Rightarrow>
                (let neg = (take 1 t = ''-'');
                     u = (if take 1 t = ''-'' \<or> take 1 t = ''+'' then drop 1 t else t)
                 in if u = ''Infinity'' then (if neg then NInf else PInf)
                    else (case parse_unsigned_decimal u of
                            Some r \<Rightarrow> Fin (if neg then - r else r)
                          | None \<Rightarrow> NaN))))"

text \<open>
  \<open>Number(v)\<close> on a JSON value. An array converts through its string: the empty array is
  the empty string, a one-element array is the string of its element (empty for \<open>null\<close>
  and \<open>undefined\<close>; a number prints and reads back as itself), a longer one holds a comma.
\<close>

fun ToNumber :: "json \<Rightarrow> jsnum" where
  "ToNumber JUndefined = NaN"
| "ToNumber JNull = Fin 0"
| "ToNumber (JBool b) = Fin (if b then 1 else 0)"
| "ToNumber (JNum n) = n"
| "ToNumber (JStr s) = StringToNumber s"
| "ToNumber (JArr []) = Fin 0"
| "ToNumber (JArr [JUndefined]) = Fin 0"
| "ToNumber (JArr [JNull]) = Fin 0"
| "ToNumber (JArr [JBool b]) = NaN"
| "ToNumber (JArr [JObj kvs]) = NaN"
| "ToNumber (JArr [x]) = ToNumber x"
| "ToNumber (JArr (x # y # zs)) = NaN"
| "ToNumber (JObj kvs) = NaN"

section \<open>Entry coercion\<close>

subsection \<open>\<open>normalizeEntry\<close> of app/api/signals/route.ts\<close>

text \<open>
  \<open>if (typeof out.k !== "undefined") out.k = Number(out.k)\<close> on the entries of \<open>out\<close>.
\<close>

definition coerce_field :: "(string \<times> json) list \<Rightarrow> string \<Rightarrow> (string \<times> json) list" where
  "coerce_field out k =
     (if typeof (get_prop (JObj out) k) \<noteq> ''undefined''
      then obj_set out k (JNum (ToNumber (get_prop (JObj out) k)))
      else out)"

text \<open>
  The block on \<open>out.zone\<close>. The copy \<open>out\<close> is shallow, so the source coerces the bounds
  on the zone object itself; in the returned value this is the zone of \<open>out\<close> with its
  bounds coerced. An array is an object for \<open>typeof\<close> and has neither bound.
\<close>

definition coerce_zone :: "(string \<times> json) list \<Rightarrow> (string \<times> json) list" where
  "coerce_zone out =
     (let zone = get_prop (JObj out) ''zone'' in
      if truthy zone \<and> typeof zone = ''object''
      then (case zone of
              JObj z \<Rightarrow> obj_set out ''zone'' (JObj (coerce_field (coerce_field z ''low'') ''high''))
            | _ \<Rightarrow> out)
      else out)"

definition normalizeEntry :: "json \<Rightarrow> json" where
  "normalizeEntry entry =
     (if \<not> truthy entry then JObj []
      else JObj (coerce_field (coerce_zone (coerce_field (spread entry) ''trigger'')) ''price''))"

subsection \<open>\<open>normalizeEntry\<close> of the second signals route (unnamed/part_002)\<close>

definition normalizeEntry_p2 :: "json \<Rightarrow> json" where
  "normalizeEntry_p2 entry =
     (if \<not> truthy entry then JObj [(''price'', JNull)]
      else if typeof entry = ''number'' then JObj [(''price'', entry)]
      else if typeof (get_prop entry ''price'') = ''number'' then entry
      else if typeof (get_prop entry ''trigger'') = ''number''
        then JObj (obj_set (spread entry) ''price'' (get_prop entry ''trigger''))
      else if truthy (get_prop entry ''zone'')
           \<and> typeof (get_prop (get_prop entry ''zone'') ''low'') = ''number''
           \<and> typeof (get_prop (get_prop entry ''zone'') ''high'') = ''number''
        then JObj (obj_set (spread entry) ''price''
               (JNum (jdiv (jadd (ToNumber (get_prop (get_prop entry ''zone'') ''low''))
                                 (ToNumber (get_prop (get_prop entry ''zone'') ''high''))) (Fin 2))))
      else entry)"


section \<open>Arrays, strings and the host\<close>

text \<open>\<open>v?.[0]\<close> on a value that is neither \<open>null\<close> nor \<open>undefined\<close>.\<close>

fun index0 :: "json \<Rightarrow> json" where
  "index0 (JArr (x # xs)) = x"
| "index0 (JStr (c # cs)) = JStr [c]"
| "index0 (JObj kvs) = get_prop (JObj kvs) ''0''"
| "index0 _ = JUndefined"


definition isArray :: "json \<Rightarrow> bool" where
  "isArray v = (case v of JArr _ \<Rightarrow> True | _ \<Rightarrow> False)"

text \<open>
  What the host decides: the clock behind \<open>new Date().toISOString()\<close>, the text a number
  prints as, and the collation behind \<open>localeCompare\<close>.
\<close>

record host =
  now_iso :: string
  number_to_string :: "jsnum \<Rightarrow> string"
  locale_compare :: "string \<Rightarrow> string \<Rightarrow> int"

fun join_comma :: "string list \<Rightarrow> string" where
  "join_comma [] = []"
| "join_comma [s] = s"
| "join_comma (s # t # ss) = s @ '','' @ join_comma (t # ss)"

text \<open>\<open>String(v)\<close>\<close>

fun ToString :: "host \<Rightarrow> json \<Rightarrow> string" where
  "ToString h JUndefined = ''undefined''"
| "ToString h JNull = ''null''"
| "ToString h (JBool b) = (if b then ''true'' else ''false'')"
| "ToString h (JNum n) = number_to_string h n"
| "ToString h (JStr s) = s"
| "ToString h (JArr xs) = join_comma (map (\<lambda>x. if nullish x then [] else ToString h x) xs)"
| "ToString h (JObj kvs) = ''[object Object]''"


text \<open>\<open>s.replace(pat, "")\<close> for a string pattern: the first occurrence goes.\<close>

fun remove_first :: "string \<Rightarrow> string \<Rightarrow> string" where
  "remove_first pat [] = []"
| "remove_first pat (c # cs) =
     (if take (length pat) (c # cs) = pat then drop (length pat) (c # cs)
      else c # remove_first pat cs)"

text \<open>
  \<open>xs.sort(cmp)\<close>. The language fixes the result for a consistent comparator: the stable
  sorted arrangement, which insertion from the right computes. A comparator result that
  is \<open>NaN\<close> counts as zero.
\<close>

definition before_or_equal :: "jsnum \<Rightarrow> bool" where
  "before_or_equal v = (case v of Fin r \<Rightarrow> r \<le> 0 | NaN \<Rightarrow> True | NInf \<Rightarrow> True | PInf \<Rightarrow> False)"

fun js_insort :: "('a \<Rightarrow> 'a \<Rightarrow> jsnum) \<Rightarrow> 'a \<Rightarrow> 'a list \<Rightarrow> 'a list" where
  "js_insort cmp x [] = [x]"
| "js_insort cmp x (y # ys) =
     (if before_or_equal (cmp x y) then x # y # ys else y # js_insort cmp x ys)"

definition js_sort :: "('a \<Rightarrow> 'a \<Rightarrow> jsnum) \<Rightarrow> 'a list \<Rightarrow> 'a list" where
  "js_sort cmp xs = foldr (js_insort cmp) xs []"

text \<open>\<open>xs.slice(0, e)\<close>: \<open>e\<close> is truncated to an integer, and a negative one counts from the end.\<close>

definition trunc :: "real \<Rightarrow> int" where
  "trunc r = (if 0 \<le> r then \<lfloor>r\<rfloor> else \<lceil>r\<rceil>)"

definition slice0 :: "'a list \<Rightarrow> jsnum \<Rightarrow> 'a list" where
  "slice0 xs e =
     (case e of
        NaN \<Rightarrow> []
      | NInf \<Rightarrow> []
      | PInf \<Rightarrow> xs
      | Fin r \<Rightarrow>
          (if trunc r < 0 then take (nat (int (length xs) + trunc r)) xs
           else take (nat (trunc r)) xs))"

text \<open>\<open>xs.map(f)\<close> where \<open>f\<close> may throw: the first exception ends the loop.\<close>

fun map_throw :: "('a \<Rightarrow> js_error + 'b) \<Rightarrow> 'a list \<Rightarrow> js_error + 'b list" where
  "map_throw f [] = Inr []"
| "map_throw f (x # xs) =
     (case f x of
        Inl e \<Rightarrow> Inl e
      | Inr y \<Rightarrow> (case map_throw f xs of Inl e \<Rightarrow> Inl e | Inr ys \<Rightarrow> Inr (y # ys)))"

fun message :: "js_error \<Rightarrow> string" where
  "message (TypeError m) = m"
| "message (Error m) = m"

section \<open>The canonical signal (lib/signal.ts)\<close>

text \<open>
  \<open>cardToSignal(card, as_of, defaultLabel)\<close>. Reading a property of a \<open>null\<close> card or of a
  \<open>null\<close> target throws. The object literal lists the computed fields first and spreads
  the card last.
\<close>

definition card_entry :: "json \<Rightarrow> json \<Rightarrow> json" where
  "card_entry crd plan =
     (if opt_prop (get_prop plan ''entry'') ''type'' = JStr ''breakout_confirmation''
      then JObj [(''type'', JStr ''breakout_confirmation''),
                 (''trigger'', get_prop (get_prop plan ''entry'') ''trigger''),
                 (''why'', get_prop (get_prop plan ''entry'') ''why'')]
      else if opt_prop (get_prop plan ''entry'') ''type'' = JStr ''value_zone''
      then JObj [(''type'', JStr ''value_zone''),
                 (''zone'', get_prop (get_prop plan ''entry'') ''zone''),
                 (''why'', get_prop (get_prop plan ''entry'') ''why'')]
      else JObj [(''price'', get_prop crd ''price'')])"

definition card_stopPrice :: "json \<Rightarrow> json \<Rightarrow> json" where
  "card_stopPrice crd plan =
     (if typeof (opt_prop (get_prop plan ''exit_if_wrong'') ''stop'') = ''number''
      then get_prop (get_prop plan ''exit_if_wrong'') ''stop''
      else opt_prop (opt_prop crd ''stop'') ''price'')"

definition card_targets :: "json \<Rightarrow> json \<Rightarrow> js_error + json" where
  "card_targets crd plan =
     (case get_prop plan ''targets'' of
        JArr ts \<Rightarrow>
          (case map_throw (\<lambda>t. case must_prop t ''price'' of
                                  Inl e \<Rightarrow> Inl e
                                | Inr p \<Rightarrow> Inr (JObj [(''price'', JNum (ToNumber p))])) ts of
             Inl e \<Rightarrow> Inl e
           | Inr ts' \<Rightarrow> Inr (JArr ts'))
      | _ \<Rightarrow>
          Inr (if isArray (opt_prop crd ''targets'') then get_prop crd ''targets'' else JArr []))"

definition cardToSignal :: "json \<Rightarrow> json \<Rightarrow> string \<Rightarrow> js_error + json" where
  "cardToSignal crd as_of defaultLabel =
     (case must_prop crd ''labels'' of
        Inl e \<Rightarrow> Inl e
      | Inr ls \<Rightarrow>
          (let labels = (if isArray ls then ls else JArr []);
               label = coalesce (index0 labels) (JStr defaultLabel);
               plan = coalesce (get_prop crd ''plan'') (JObj [])
           in case card_targets crd plan of
                Inl e \<Rightarrow> Inl e
              | Inr targets \<Rightarrow>
                  Inr (JObj (obj_assign
                    [(''as_of'', as_of),
                     (''ticker'', get_prop crd ''ticker''),
                     (''label'', label),
                     (''plan_type'',
                        coalesce (opt_prop (get_prop plan ''entry'') ''type'') (JStr ''unknown'')),
                     (''entry'', card_entry crd plan),
                     (''stop'',
                        JObj [(''price'',
                          JNum (ToNumber (coalesce (card_stopPrice crd plan) (JNum (Fin 0)))))]),
                     (''targets'', targets),
                     (''vol_z'', get_prop crd ''vol_z''),
                     (''rs_vs_spy'',
                        coalesce (get_prop crd ''rs_vs_spy'') (get_prop crd ''rs_60d_vs_spy'')),
                     (''learned_top_rules'', get_prop crd ''learned_top_rules'')]
                    (spread crd)))))"

text \<open>
  \<open>cardsFileToSignals(file, defaultLabel)\<close>: a \<open>null\<close> file throws, and so does a \<open>cards\<close>
  that is present and not an array (it has no \<open>map\<close>).
\<close>

definition cardsFileToSignals :: "host \<Rightarrow> json \<Rightarrow> string \<Rightarrow> js_error + json list" where
  "cardsFileToSignals h file defaultLabel =
     (case must_prop file ''as_of'' of
        Inl e \<Rightarrow> Inl e
      | Inr a \<Rightarrow>
          (let as_of = coalesce a (JStr (now_iso h)) in
           case coalesce (get_prop file ''cards'') (JArr []) of
             JArr cards \<Rightarrow> map_throw (\<lambda>c. cardToSignal c as_of defaultLabel) cards
           | _ \<Rightarrow> Inl (TypeError ''(file.cards ?? []).map is not a function'')))"


section \<open>The environment of the routes\<close>

text \<open>
  The process environment, the snapshot files and the store are what a route reads.
  A file is missing, unparsable or parses to a JSON value. A query of the store comes
  back with rows (or \<open>null\<close> data), comes back with an error object, or is rejected.
\<close>

record env =
  SUPABASE_URL :: "string option"
  SUPABASE_SERVICE_ROLE_KEY :: "string option"
  INGEST_TOKEN :: "string option"
  TEACH_TOKEN :: "string option"

text \<open>\<open>!v\<close> for an environment variable: unset or the empty string.\<close>

definition unset :: "string option \<Rightarrow> bool" where
  "unset v = (case v of None \<Rightarrow> True | Some s \<Rightarrow> s = [])"

datatype read_result = Missing | Unparsable | Parsed json

type_synonym files = "string \<Rightarrow> read_result"

datatype query_outcome = Rows "json list option" | DbError string | Rejected js_error

record signals_query =
  rows_limit :: jsnum
  label_eq :: "string option"

type_synonym signals_store = "signals_query \<Rightarrow> query_outcome"

text \<open>The query string of a request for signals: \<open>searchParams.get\<close> of \<open>limit\<close> and \<open>label\<close>.\<close>

record signals_request =
  limit_param :: "string option"
  label_param :: "string option"

text \<open>\<open>if (label) q = q.eq("label", label)\<close>\<close>

definition label_filter :: "string option \<Rightarrow> string option" where
  "label_filter label = (if unset label then None else label)"

text \<open>\<open>label ? fb.filter((s) => s.label === label) : fb\<close>\<close>

definition filter_label :: "string option \<Rightarrow> json list \<Rightarrow> json list" where
  "filter_label label fb =
     (case label_filter label of
        None \<Rightarrow> fb
      | Some l \<Rightarrow> filter (\<lambda>s. opt_prop s ''label'' = JStr l) fb)"

section \<open>The signals route (app/api/signals/route.ts)\<close>

definition getSupabase :: "env \<Rightarrow> js_error + unit" where
  "getSupabase e =
     (if unset (SUPABASE_URL e) \<or> unset (SUPABASE_SERVICE_ROLE_KEY e)
      then Inl (Error ''Missing SUPABASE_URL / SUPABASE_SERVICE_ROLE_KEY'')
      else Inr ())"

definition normalizeStop :: "json \<Rightarrow> json" where
  "normalizeStop stop =
     (if \<not> truthy stop then JObj [(''price'', JNum (Fin 0))]
      else if typeof stop = ''number'' then JObj [(''price'', stop)]
      else
        let price = coalesce (coalesce (coalesce (get_prop stop ''price'') (get_prop stop ''stop''))
                                (get_prop stop ''stop_price'')) (JNum (Fin 0))
        in JObj (obj_set (spread stop) ''price'' (JNum (ToNumber (coalesce price (JNum (Fin 0)))))))"

definition extractAi :: "json \<Rightarrow> json" where
  "extractAi entry =
     (let ai = coalesce (coalesce (opt_prop entry ''ai'') (opt_prop entry ''AI'')) JNull in
      if \<not> truthy ai then JNull
      else JObj [(''probability'', coalesce (get_prop ai ''probability'') JNull),
                 (''confidence'', coalesce (get_prop ai ''confidence'') JNull),
                 (''why'', coalesce (get_prop ai ''why'') JNull),
                 (''chosen_stop'', coalesce (get_prop ai ''chosen_stop'') JNull),
                 (''stop_ladder'', coalesce (get_prop ai ''stop_ladder'') JNull),
                 (''runtime_ms'', coalesce (get_prop ai ''runtime_ms'') JNull)])"

text \<open>\<open>tryRead\<close>: a file that cannot be read or parsed is \<open>null\<close>.\<close>

definition tryRead :: "files \<Rightarrow> string \<Rightarrow> json" where
  "tryRead fs fname =
     (case fs (''market_ai_kit/output/'' @ fname) of
        Parsed j \<Rightarrow> j
      | _ \<Rightarrow> JNull)"

text \<open>\<open>if (file) out.push(...cardsFileToSignals(file, label))\<close>\<close>

definition push_tier :: "host \<Rightarrow> json \<Rightarrow> string \<Rightarrow> json list \<Rightarrow> js_error + json list" where
  "push_tier h file label out =
     (if truthy file
      then (case cardsFileToSignals h file label of
              Inl e \<Rightarrow> Inl e
            | Inr sigs \<Rightarrow> Inr (out @ sigs))
      else Inr out)"

text \<open>The key the fallback sorts on, newest first: \<open>String(s.created_at ?? s.as_of ?? "")\<close>.\<close>

definition recency_key :: "host \<Rightarrow> json \<Rightarrow> string" where
  "recency_key h s =
     ToString h (coalesce (coalesce (get_prop s ''created_at'') (get_prop s ''as_of'')) (JStr []))"

definition by_recency :: "host \<Rightarrow> json \<Rightarrow> json \<Rightarrow> jsnum" where
  "by_recency h a b = Fin (real_of_int (locale_compare h (recency_key h b) (recency_key h a)))"

definition fallbackSignals :: "host \<Rightarrow> files \<Rightarrow> js_error + json list" where
  "fallbackSignals h fs =
     (let ready = tryRead fs ''ready.json'';
          early = tryRead fs ''early.json'';
          watch = tryRead fs ''watch.json''
      in case push_tier h ready ''READY_CONFIRMED'' [] of
           Inl e \<Rightarrow> Inl e
         | Inr out \<Rightarrow>
             (case push_tier h early ''EARLY'' out of
                Inl e \<Rightarrow> Inl e
              | Inr out \<Rightarrow>
                  (case push_tier h watch ''WATCH'' out of
                     Inl e \<Rightarrow> Inl e
                   | Inr out \<Rightarrow> Inr (js_sort (by_recency h) out))))"

text \<open>\<open>Math.min(Number(url.searchParams.get("limit") ?? "200"), 1000)\<close>\<close>

definition route_limit :: "signals_request \<Rightarrow> jsnum" where
  "route_limit req =
     Math_min (StringToNumber (case limit_param req of None \<Rightarrow> ''200'' | Some l \<Rightarrow> l)) (Fin 1000)"

text \<open>The query sent to the store: \<open>.limit(limit)\<close>, and \<open>.eq("label", label)\<close> for a label.\<close>

definition route_query :: "signals_request \<Rightarrow> signals_query" where
  "route_query req = \<lparr>rows_limit = route_limit req, label_eq = label_filter (label_param req)\<rparr>"

text \<open>The first signal's \<open>created_at\<close>, else its \<open>as_of\<close>, else \<open>null\<close>.\<close>

definition first_as_of :: "json list \<Rightarrow> json" where
  "first_as_of sigs =
     coalesce (coalesce (opt_prop (index0 (JArr sigs)) ''created_at'')
                        (opt_prop (index0 (JArr sigs)) ''as_of'')) JNull"

text \<open>The row mapping of the success branch; a \<open>null\<close> row throws at \<open>s.entry\<close>.\<close>

definition normalize_row :: "json \<Rightarrow> js_error + json" where
  "normalize_row s =
     (case must_prop s ''entry'' of
        Inl e \<Rightarrow> Inl e
      | Inr en \<Rightarrow>
          (let entry = normalizeEntry en;
               ai = extractAi entry
           in Inr (JObj (obj_assign (spread s)
                [(''entry'', entry),
                 (''stop'', normalizeStop (get_prop s ''stop'')),
                 (''targets'', if isArray (get_prop s ''targets'') then get_prop s ''targets'' else JArr []),
                 (''probability'',
                    coalesce (coalesce (opt_prop ai ''probability'') (get_prop s ''probability'')) JNull),
                 (''confidence'',
                    coalesce (coalesce (opt_prop ai ''confidence'') (get_prop s ''confidence'')) JNull),
                 (''why'', coalesce (coalesce (opt_prop ai ''why'') (get_prop s ''why'')) JNull),
                 (''chosen_stop'',
                    coalesce (coalesce (opt_prop ai ''chosen_stop'') (get_prop s ''chosen_stop'')) JNull),
                 (''stop_ladder'',
                    coalesce (coalesce (opt_prop ai ''stop_ladder'') (get_prop s ''stop_ladder'')) JNull)]))))"

text \<open>The body of the \<open>try\<close> block.\<close>

definition GET_try :: "host \<Rightarrow> env \<Rightarrow> files \<Rightarrow> signals_store \<Rightarrow> signals_request \<Rightarrow> js_error + json" where
  "GET_try h e fs store req =
     (case getSupabase e of
        Inl err \<Rightarrow> Inl err
      | Inr _ \<Rightarrow>
          (case store (route_query req) of
             Rejected err \<Rightarrow> Inl err
           | DbError msg \<Rightarrow>
               (case fallbackSignals h fs of
                  Inl err \<Rightarrow> Inl err
                | Inr fb \<Rightarrow>
                    Inr (JObj [(''source'', JStr ''fallback_after_db_error''),
                               (''as_of'', first_as_of fb),
                               (''error'', JStr msg),
                               (''signals'', JArr fb)]))
           | Rows data \<Rightarrow>
               (case map_throw normalize_row (case data of None \<Rightarrow> [] | Some rows \<Rightarrow> rows) of
                  Inl err \<Rightarrow> Inl err
                | Inr normalized \<Rightarrow>
                    Inr (JObj [(''source'', JStr ''supabase''),
                               (''as_of'', coalesce (opt_prop (index0 (JArr normalized)) ''created_at'') JNull),
                               (''signals'', JArr normalized)]))))"

text \<open>
  \<open>GET\<close>: whatever the \<open>try\<close> block throws lands in the \<open>catch\<close>, which serves the snapshot;
  an exception of the \<open>catch\<close> itself leaves the handler.
\<close>

definition GET :: "host \<Rightarrow> env \<Rightarrow> files \<Rightarrow> signals_store \<Rightarrow> signals_request \<Rightarrow> js_error + json" where
  "GET h e fs store req =
     (case GET_try h e fs store req of
        Inr response \<Rightarrow> Inr response
      | Inl err \<Rightarrow>
          (case fallbackSignals h fs of
             Inl err' \<Rightarrow> Inl err'
           | Inr fb \<Rightarrow>
               (let filtered = filter_label (label_param req) fb;
                    sliced = slice0 filtered
                               (Math_min (Fin (real (length filtered))) (route_limit req))
                in Inr (JObj [(''source'', JStr ''fallback''),
                              (''as_of'', first_as_of sliced),
                              (''error'', JStr (message err)),
                              (''signals'', JArr sliced)]))))"

section \<open>The second signals route (unnamed/part_002)\<close>

definition supabaseIfConfigured :: "env \<Rightarrow> bool" where
  "supabaseIfConfigured e = (\<not> (unset (SUPABASE_URL e) \<or> unset (SUPABASE_SERVICE_ROLE_KEY e)))"

text \<open>\<open>readJsonFromPublic\<close>: no handler here, a file that cannot be read or parsed throws.\<close>

definition readJsonFromPublic :: "files \<Rightarrow> string \<Rightarrow> js_error + json" where
  "readJsonFromPublic fs rel =
     (case fs (''public/'' @ rel) of
        Parsed j \<Rightarrow> Inr j
      | Missing \<Rightarrow> Inl (Error ''ENOENT: no such file or directory'')
      | Unparsable \<Rightarrow> Inl (Error ''SyntaxError: Unexpected token in JSON''))"

definition with_entry_p2 :: "json \<Rightarrow> js_error + json" where
  "with_entry_p2 s =
     (case must_prop s ''entry'' of
        Inl e \<Rightarrow> Inl e
      | Inr en \<Rightarrow> Inr (JObj (obj_set (spread s) ''entry'' (normalizeEntry_p2 en))))"

definition fallbackSignals_p2 :: "host \<Rightarrow> files \<Rightarrow> js_error + json list" where
  "fallbackSignals_p2 h fs =
     (case readJsonFromPublic fs ''data/ready.json'' of
        Inl e \<Rightarrow> Inl e
      | Inr ready \<Rightarrow>
     (case readJsonFromPublic fs ''data/early.json'' of
        Inl e \<Rightarrow> Inl e
      | Inr early \<Rightarrow>
     (case readJsonFromPublic fs ''data/watch.json'' of
        Inl e \<Rightarrow> Inl e
      | Inr watch \<Rightarrow>
     (case cardsFileToSignals h ready ''READY_CONFIRMED'' of
        Inl e \<Rightarrow> Inl e
      | Inr r \<Rightarrow>
     (case cardsFileToSignals h early ''EARLY'' of
        Inl e \<Rightarrow> Inl e
      | Inr ea \<Rightarrow>
     (case cardsFileToSignals h watch ''WATCH'' of
        Inl e \<Rightarrow> Inl e
      | Inr w \<Rightarrow> map_throw with_entry_p2 (r @ ea @ w)))))))"

text \<open>\<open>Number(url.searchParams.get("limit") ?? "200")\<close> and what \<open>.limit(...)\<close> is given.\<close>

definition limit_p2 :: "signals_request \<Rightarrow> jsnum" where
  "limit_p2 req = StringToNumber (case limit_param req of None \<Rightarrow> ''200'' | Some l \<Rightarrow> l)"

definition store_limit_p2 :: "signals_request \<Rightarrow> jsnum" where
  "store_limit_p2 req = Math_min (Math_max (limit_p2 req) (Fin 1)) (Fin 1000)"

definition query_p2 :: "signals_request \<Rightarrow> signals_query" where
  "query_p2 req = \<lparr>rows_limit = store_limit_p2 req, label_eq = label_filter (label_param req)\<rparr>"

definition GET_p2 :: "host \<Rightarrow> env \<Rightarrow> files \<Rightarrow> signals_store \<Rightarrow> signals_request \<Rightarrow> js_error + json" where
  "GET_p2 h e fs store req =
     (if supabaseIfConfigured e
      then
        (case store (query_p2 req) of
           Rejected err \<Rightarrow> Inl err
         | DbError msg \<Rightarrow>
             (case fallbackSignals_p2 h fs of
                Inl err \<Rightarrow> Inl err
              | Inr fb \<Rightarrow>
                  Inr (JObj [(''source'', JStr ''fallback_after_db_error''),
                             (''error'', JStr msg),
                             (''signals'', JArr fb)]))
         | Rows data \<Rightarrow>
             (case map_throw with_entry_p2 (case data of None \<Rightarrow> [] | Some rows \<Rightarrow> rows) of
                Inl err \<Rightarrow> Inl err
              | Inr normalized \<Rightarrow>
                  Inr (JObj [(''source'', JStr ''supabase''), (''signals'', JArr normalized)])))
      else
        (case fallbackSignals_p2 h fs of
           Inl err \<Rightarrow> Inl err
         | Inr fb \<Rightarrow>
             (let filtered = filter_label (label_param req) fb
              in Inr (JObj [(''source'', JStr ''fallback''),
                            (''signals'',
                               JArr (slice0 filtered
                                 (Math_min (Fin (real (length filtered))) (limit_p2 req))))]))))"


section \<open>Derived metrics (app/page.tsx)\<close>














section \<open>Review candidates (unnamed/part_003)\<close>

text \<open>
  A row of \<open>select("id, ticker, label, plan_type, rs_vs_spy, vol_z")\<close>: an object with
  these columns, each a JSON value.
\<close>

record candidate =
  row_id :: json
  ticker :: json
  label :: json
  plan_type :: json
  rs_vs_spy :: json
  vol_z :: json











section \<open>Requests, responses and the shared secrets\<close>

record http_request =
  x_ingest_token :: "string option"
  authorization :: "string option"
  body :: "json option"

text \<open>\<open>body\<close> is \<open>None\<close> when the request body is not JSON: \<open>req.json()\<close> is rejected then.\<close>

record http_response =
  status :: nat
  payload :: json

datatype 'a db_result = DbOk 'a | DbFail string



subsection \<open>\<open>assertAuth\<close> of app/api/ingest-scan/route.ts\<close>


subsection \<open>\<open>mustAuth\<close> of the candidates route and \<open>requireTeachToken\<close> of the label route\<close>

text \<open>\<open>req.headers.get("authorization")?.replace("Bearer ", "")\<close>\<close>

definition bearer_token :: "http_request \<Rightarrow> string option" where
  "bearer_token req = map_option (remove_first ''Bearer '') (authorization req)"


definition requireTeachToken :: "env \<Rightarrow> http_request \<Rightarrow> bool" where
  "requireTeachToken e req = (\<not> unset (TEACH_TOKEN e) \<and> bearer_token req = TEACH_TOKEN e)"

definition getSupabase_teach :: "env \<Rightarrow> js_error + unit" where
  "getSupabase_teach e =
     (if unset (SUPABASE_URL e) \<or> unset (SUPABASE_SERVICE_ROLE_KEY e)
      then Inl (Error ''Supabase env vars missing (SUPABASE_URL / SUPABASE_SERVICE_ROLE_KEY)'')
      else Inr ())"

definition unauthorized :: http_response where
  "unauthorized = \<lparr>status = 401, payload = JObj [(''error'', JStr ''unauthorized'')]\<rparr>"

section \<open>The ingest route (app/api/ingest-scan/route.ts)\<close>




section \<open>The candidates route (unnamed/part_003)\<close>




section \<open>The label route (unnamed/part_004)\<close>

text \<open>
  The table of labels and the store's own check of a row (its schema is not part of the
  repository): \<open>insert\<close> appends the row unless the store refuses it.
\<close>

record label_store =
  teach_labels :: "json list"
  refuses :: "json \<Rightarrow> string option"

definition insert_label :: "label_store \<Rightarrow> json \<Rightarrow> json db_result \<times> label_store" where
  "insert_label st row =
     (case refuses st row of
        Some msg \<Rightarrow> (DbFail msg, st)
      | None \<Rightarrow>
          (DbOk (JObj [(''id'', JNum (Fin (real (length (teach_labels st)) + 1)))]),
           st\<lparr>teach_labels := teach_labels st @ [row]\<rparr>))"

definition required :: "string list" where
  "required = [''ticker'', ''mode'', ''idea_source'', ''timeframe'', ''exit_intent'', ''confidence'']"

text \<open>The first required key whose value is \<open>undefined\<close>, \<open>null\<close> or the empty string.\<close>

definition first_missing :: "json \<Rightarrow> string option" where
  "first_missing b =
     find (\<lambda>k. get_prop b k = JUndefined \<or> get_prop b k = JNull \<or> get_prop b k = JStr []) required"

definition label_row :: "json \<Rightarrow> json" where
  "label_row b =
     JObj [(''ticker'', get_prop b ''ticker''),
           (''mode'', get_prop b ''mode''),
           (''idea_source'', get_prop b ''idea_source''),
           (''timeframe'', get_prop b ''timeframe''),
           (''entry_reasons'',
              (case get_prop b ''entry_reasons'' of JArr rs \<Rightarrow> JArr (take 2 rs) | _ \<Rightarrow> JArr [])),
           (''exit_intent'', get_prop b ''exit_intent''),
           (''confidence'', JNum (ToNumber (get_prop b ''confidence''))),
           (''notes'', coalesce (get_prop b ''notes'') JNull),
           (''scan_run_id'', coalesce (get_prop b ''scan_run_id'') JNull),
           (''signal_id'', coalesce (get_prop b ''signal_id'') JNull)]"

definition label_POST ::
  "env \<Rightarrow> label_store \<Rightarrow> http_request \<Rightarrow> (js_error + http_response) \<times> label_store" where
  "label_POST e st req =
     (case getSupabase_teach e of
        Inl err \<Rightarrow> (Inl err, st)
      | Inr _ \<Rightarrow>
          (if \<not> requireTeachToken e req then (Inr unauthorized, st)
           else
             (case body req of
                None \<Rightarrow> (Inl (Error ''Unexpected token in JSON''), st)
              | Some b \<Rightarrow>
                  (if nullish b
                   then (Inl (TypeError ''Cannot read properties of null or undefined''), st)
                   else
                     (case first_missing b of
                        Some k \<Rightarrow>
                          (Inr \<lparr>status = 400, payload = JObj [(''error'', JStr (''missing '' @ k))]\<rparr>, st)
                      | None \<Rightarrow>
                          (case insert_label st (label_row b) of
                             (DbFail msg, st') \<Rightarrow>
                               (Inr \<lparr>status = 500, payload = JObj [(''error'', JStr msg)]\<rparr>, st')
                           | (DbOk data, st') \<Rightarrow>
                               (Inr \<lparr>status = 200, payload =
                                     JObj [(''ok'', JBool True), (''id'', get_prop data ''id'')]\<rparr>,
                                st')))))))"


section \<open>Reading a response, and data for the examples\<close>

text \<open>The \<open>source\<close> field of the response of a signals route; none when the handler threw.\<close>

definition response_source :: "js_error + json \<Rightarrow> json option" where
  "response_source r = (case r of Inr b \<Rightarrow> Some (get_prop b ''source'') | Inl _ \<Rightarrow> None)"

text \<open>A call that returns, as opposed to one that throws.\<close>

definition returns :: "js_error + 'a \<Rightarrow> bool" where
  "returns r = (case r of Inr _ \<Rightarrow> True | Inl _ \<Rightarrow> False)"

definition response_signals :: "js_error + json \<Rightarrow> json option" where
  "response_signals r = (case r of Inr b \<Rightarrow> Some (get_prop b ''signals'') | Inl _ \<Rightarrow> None)"

definition rows_of :: "json list option \<Rightarrow> json list" where
  "rows_of data = (case data of None \<Rightarrow> [] | Some rows \<Rightarrow> rows)"

text \<open>A host that compares strings by code unit and prints whole numbers.\<close>

fun ordinal_compare :: "string \<Rightarrow> string \<Rightarrow> int" where
  "ordinal_compare [] [] = 0"
| "ordinal_compare [] (d # ds) = - 1"
| "ordinal_compare (c # cs) [] = 1"
| "ordinal_compare (c # cs) (d # ds) =
     (if (of_char c :: nat) < of_char d then - 1
      else if (of_char d :: nat) < of_char c then 1
      else ordinal_compare cs ds)"

definition print_whole :: "jsnum \<Rightarrow> string" where
  "print_whole n =
     (case n of
        NaN \<Rightarrow> ''NaN''
      | PInf \<Rightarrow> ''Infinity''
      | NInf \<Rightarrow> ''-Infinity''
      | Fin r \<Rightarrow> (if r < 0 then ''-'' else []) @ string_of_nat (nat \<lfloor>\<bar>r\<bar>\<rfloor>))"

definition a_host :: host where
  "a_host = \<lparr>now_iso = ''2024-01-01T00:00:00.000Z'', number_to_string = print_whole,
              locale_compare = ordinal_compare\<rparr>"

text \<open>The card of the specification's scenario, and the same card carrying a \<open>label\<close> of its own.\<close>

definition abc_card :: json where
  "abc_card =
     JObj [(''ticker'', JStr ''ABC''), (''price'', JNum (Fin 100)),
           (''plan'', JObj [(''entry'', JObj [(''type'', JStr ''value_zone''),
                               (''zone'', JObj [(''low'', JNum (Fin 95)), (''high'', JNum (Fin 98))])]),
                            (''exit_if_wrong'', JObj [(''stop'', JNum (Fin 90))]),
                            (''targets'', JArr [JObj [(''price'', JNum (Fin 110))]])])]"

definition labelled_card :: json where
  "labelled_card =
     JObj (spread abc_card @ [(''labels'', JArr [JStr ''READY_CONFIRMED'']), (''label'', JStr ''CUSTOM'')])"

text \<open>Snapshot directories in which \<open>ready.json\<close> is missing and the other two tiers exist.\<close>

definition early_file :: json where
  "early_file = JObj [(''as_of'', JStr ''2024-02-02T00:00:00Z''), (''cards'', JArr [abc_card])]"

definition watch_file :: json where
  "watch_file = JObj [(''as_of'', JStr ''2024-02-03T00:00:00Z''), (''cards'', JArr [])]"

definition no_ready :: files where
  "no_ready path =
     (if path = ''market_ai_kit/output/early.json'' \<or> path = ''public/data/early.json''
        then Parsed early_file
      else if path = ''market_ai_kit/output/watch.json'' \<or> path = ''public/data/watch.json''
        then Parsed watch_file
      else Missing)"

definition all_tiers :: files where
  "all_tiers path =
     (if path = ''market_ai_kit/output/ready.json'' \<or> path = ''public/data/ready.json''
        then Parsed watch_file
      else no_ready path)"

definition no_env :: env where
  "no_env = \<lparr>SUPABASE_URL = None, SUPABASE_SERVICE_ROLE_KEY = None, INGEST_TOKEN = None,
              TEACH_TOKEN = None\<rparr>"

definition store_env :: env where
  "store_env = \<lparr>SUPABASE_URL = Some ''https://db.example'', SUPABASE_SERVICE_ROLE_KEY = Some ''key'',
                 INGEST_TOKEN = None, TEACH_TOKEN = None\<rparr>"

definition teach_env :: env where
  "teach_env = store_env\<lparr>TEACH_TOKEN := Some ''s3cret''\<rparr>"

definition plain_request :: signals_request where
  "plain_request = \<lparr>limit_param = None, label_param = None\<rparr>"


text \<open>An entry with a trigger and zone bounds given as strings, and one with a zone only.\<close>

definition string_entry :: json where
  "string_entry =
     JObj [(''type'', JStr ''breakout_confirmation''), (''trigger'', JStr ''101.5''),
           (''zone'', JObj [(''low'', JStr ''95''), (''high'', JNum (Fin 98))])]"

definition zone_entry :: json where
  "zone_entry =
     JObj [(''type'', JStr ''value_zone''),
           (''zone'', JObj [(''low'', JNum (Fin 95)), (''high'', JNum (Fin 98))])]"



text \<open>Stores that answer every query alike.\<close>

definition empty_store :: signals_store where
  "empty_store q = Rows (Some [])"

definition broken_store :: signals_store where
  "broken_store q = DbError ''relation signals does not exist''"

definition unreachable_store :: signals_store where
  "unreachable_store q = Rejected (TypeError ''fetch failed'')"

text \<open>A store that answers with one row holding the limit it was asked for.\<close>

definition echo_store :: signals_store where
  "echo_store q = Rows (Some [JObj [(''asked_limit'', JNum (rows_limit q))]])"

text \<open>
  A label request with a given confidence and \<open>Authorization\<close> header, an empty table of
  labels whose store refuses nothing, and stores for the other two routes.
\<close>

definition label_body :: "json \<Rightarrow> json" where
  "label_body c =
     JObj [(''ticker'', JStr ''ABC''), (''mode'', JStr ''conservative''),
           (''idea_source'', JStr ''scan''), (''timeframe'', JStr ''swing''),
           (''entry_reasons'', JArr [JStr ''breakout'', JStr ''volume'', JStr ''trend'']),
           (''exit_intent'', JStr ''target''), (''confidence'', c)]"

definition label_request :: "string option \<Rightarrow> json \<Rightarrow> http_request" where
  "label_request auth c = \<lparr>x_ingest_token = None, authorization = auth, body = Some (label_body c)\<rparr>"

definition no_labels :: label_store where
  "no_labels = \<lparr>teach_labels = [], refuses = (\<lambda>row. None)\<rparr>"




section \<open>Predicates used in the proofs\<close>

text \<open>A field that the coercion leaves alone: absent, or a number already.\<close>

definition is_coerced :: "json \<Rightarrow> bool" where
  "is_coerced v = (case v of JUndefined \<Rightarrow> True | JNum n \<Rightarrow> True | _ \<Rightarrow> False)"

definition zone_coerced :: "json \<Rightarrow> bool" where
  "zone_coerced zone =
     (case zone of
        JObj z \<Rightarrow> is_coerced (get_prop zone ''low'') \<and> is_coerced (get_prop zone ''high'')
      | _ \<Rightarrow> True)"

section \<open>Objects\<close>

lemma map_of_obj_set: "map_of (obj_set kvs k v) = (map_of kvs)(k \<mapsto> v)"
  by (induction kvs) (auto simp: fun_eq_iff)

lemma get_prop_obj_set:
  "get_prop (JObj (obj_set kvs k v)) k' = (if k' = k then v else get_prop (JObj kvs) k')"
  by (simp add: map_of_obj_set)

lemma obj_set_eq_iff: "obj_set kvs k v = kvs \<longleftrightarrow> map_of kvs k = Some v"
  by (induction kvs) auto

lemma typeof_undefined_iff: "typeof v = ''undefined'' \<longleftrightarrow> v = JUndefined"
  by (cases v) auto

section \<open>The entry coercion is idempotent\<close>

lemma coerce_field_fixed_iff:
  "coerce_field kvs k = kvs \<longleftrightarrow> is_coerced (get_prop (JObj kvs) k)"
  by (auto simp: coerce_field_def is_coerced_def obj_set_eq_iff typeof_undefined_iff
           split: option.splits json.splits)

lemma get_prop_coerce_field:
  "get_prop (JObj (coerce_field kvs k)) k' =
     (if k' = k \<and> get_prop (JObj kvs) k \<noteq> JUndefined then JNum (ToNumber (get_prop (JObj kvs) k))
      else get_prop (JObj kvs) k')"
  unfolding coerce_field_def typeof_undefined_iff
  by (simp only: get_prop_obj_set split: if_splits) auto

lemma is_coerced_coerce_field: "is_coerced (get_prop (JObj (coerce_field kvs k)) k)"
  unfolding get_prop_coerce_field by (simp add: is_coerced_def del: get_prop.simps)

lemma is_coerced_coerce_other:
  "is_coerced (get_prop (JObj kvs) k') \<Longrightarrow> is_coerced (get_prop (JObj (coerce_field kvs k)) k')"
  unfolding get_prop_coerce_field by (simp add: is_coerced_def del: get_prop.simps)

lemma coerce_zone_fixed:
  assumes "zone_coerced (get_prop (JObj kvs) ''zone'')"
  shows "coerce_zone kvs = kvs"
proof (cases "get_prop (JObj kvs) ''zone''")
  case (JObj z)
  with assms have "coerce_field z ''low'' = z" "coerce_field z ''high'' = z"
    by (simp_all add: zone_coerced_def coerce_field_fixed_iff del: get_prop.simps)
  moreover from JObj have "map_of kvs ''zone'' = Some (JObj z)"
    by (auto split: option.splits)
  ultimately show ?thesis
    using JObj by (simp add: coerce_zone_def obj_set_eq_iff del: get_prop.simps)
qed (simp_all add: coerce_zone_def)

lemma get_prop_coerce_zone:
  "get_prop (JObj (coerce_zone kvs)) k =
     (if k = ''zone'' then
        (case get_prop (JObj kvs) ''zone'' of
           JObj z \<Rightarrow> JObj (coerce_field (coerce_field z ''low'') ''high'')
         | v \<Rightarrow> v)
      else get_prop (JObj kvs) k)"
  by (cases "get_prop (JObj kvs) ''zone''")
     (simp_all add: coerce_zone_def get_prop_obj_set del: get_prop.simps)

lemma zone_coerced_coerce_zone: "zone_coerced (get_prop (JObj (coerce_zone kvs)) ''zone'')"
  unfolding get_prop_coerce_zone
  by (cases "get_prop (JObj kvs) ''zone''")
     (simp_all add: zone_coerced_def is_coerced_coerce_field is_coerced_coerce_other
               del: get_prop.simps)

lemma normalizeEntry_fixed:
  assumes "is_coerced (get_prop (JObj kvs) ''trigger'')"
    and "zone_coerced (get_prop (JObj kvs) ''zone'')"
    and "is_coerced (get_prop (JObj kvs) ''price'')"
  shows "normalizeEntry (JObj kvs) = JObj kvs"
  using assms
  by (simp add: normalizeEntry_def coerce_field_fixed_iff [THEN iffD2] coerce_zone_fixed
           del: get_prop.simps)

lemma normalizeEntry_twice: "normalizeEntry (normalizeEntry e) = normalizeEntry e"
proof (cases "truthy e")
  case False
  then show ?thesis by (simp add: normalizeEntry_def coerce_field_def coerce_zone_def)
next
  case True
  define R where "R = coerce_field (coerce_zone (coerce_field (spread e) ''trigger'')) ''price''"
  have N: "normalizeEntry e = JObj R"
    using True by (simp add: normalizeEntry_def R_def)
  have "is_coerced (get_prop (JObj R) ''trigger'')"
    unfolding R_def
    by (simp add: get_prop_coerce_field get_prop_coerce_zone is_coerced_def del: get_prop.simps)
  moreover have "zone_coerced (get_prop (JObj R) ''zone'')"
    unfolding R_def using zone_coerced_coerce_zone
    by (simp add: get_prop_coerce_field del: get_prop.simps)
  moreover have "is_coerced (get_prop (JObj R) ''price'')"
    unfolding R_def by (rule is_coerced_coerce_field)
  ultimately show ?thesis
    unfolding N by (rule normalizeEntry_fixed)
qed

lemma normalizeEntry_p2_priced:
  "typeof (get_prop (JObj kvs) ''price'') = ''number'' \<Longrightarrow> normalizeEntry_p2 (JObj kvs) = JObj kvs"
  by (simp add: normalizeEntry_p2_def del: get_prop.simps)

lemma normalizeEntry_p2_twice: "normalizeEntry_p2 (normalizeEntry_p2 e) = normalizeEntry_p2 e"
proof -
  consider (falsy) "\<not> truthy e"
    | (number) "truthy e" "typeof e = ''number''"
    | (priced) "truthy e" "typeof e \<noteq> ''number''" "typeof (get_prop e ''price'') = ''number''"
    | (trigger) "truthy e" "typeof e \<noteq> ''number''" "typeof (get_prop e ''price'') \<noteq> ''number''"
        "typeof (get_prop e ''trigger'') = ''number''"
    | (zone) "truthy e" "typeof e \<noteq> ''number''" "typeof (get_prop e ''price'') \<noteq> ''number''"
        "typeof (get_prop e ''trigger'') \<noteq> ''number''"
        "truthy (get_prop e ''zone'')
           \<and> typeof (get_prop (get_prop e ''zone'') ''low'') = ''number''
           \<and> typeof (get_prop (get_prop e ''zone'') ''high'') = ''number''"
    | (other) "truthy e" "typeof e \<noteq> ''number''" "typeof (get_prop e ''price'') \<noteq> ''number''"
        "typeof (get_prop e ''trigger'') \<noteq> ''number''"
        "\<not> (truthy (get_prop e ''zone'')
           \<and> typeof (get_prop (get_prop e ''zone'') ''low'') = ''number''
           \<and> typeof (get_prop (get_prop e ''zone'') ''high'') = ''number'')"
    by blast
  then show ?thesis
  proof cases
    case falsy
    then have "normalizeEntry_p2 e = JObj [(''price'', JNull)]"
      by (simp add: normalizeEntry_p2_def)
    then show ?thesis by (simp add: normalizeEntry_p2_def)
  next
    case number
    then have "normalizeEntry_p2 e = JObj [(''price'', e)]"
      by (simp add: normalizeEntry_p2_def)
    then show ?thesis using number by (simp add: normalizeEntry_p2_priced)
  next
    case priced
    then have "normalizeEntry_p2 e = e"
      by (simp add: normalizeEntry_p2_def)
    then show ?thesis by simp
  next
    case trigger
    then have "normalizeEntry_p2 e = JObj (obj_set (spread e) ''price'' (get_prop e ''trigger''))"
      by (simp add: normalizeEntry_p2_def)
    then show ?thesis using trigger
      by (simp add: normalizeEntry_p2_priced get_prop_obj_set del: get_prop.simps)
  next
    case zone
    then have "normalizeEntry_p2 e = JObj (obj_set (spread e) ''price''
               (JNum (jdiv (jadd (ToNumber (get_prop (get_prop e ''zone'') ''low''))
                                 (ToNumber (get_prop (get_prop e ''zone'') ''high''))) (Fin 2))))"
      by (simp add: normalizeEntry_p2_def)
    then show ?thesis
      by (simp add: normalizeEntry_p2_priced get_prop_obj_set del: get_prop.simps)
  next
    case other
    then have "normalizeEntry_p2 e = e"
      by (auto simp: normalizeEntry_p2_def)
    then show ?thesis by simp
  qed
qed

text \<open>
  C9. The entry coercion is idempotent: for every entry value, of either signals route,
  coercing the coerced entry again returns it unchanged.
\<close>

theorem normalizeEntry_idempotent:
  "normalizeEntry (normalizeEntry e) = normalizeEntry e
   \<and> normalizeEntry_p2 (normalizeEntry_p2 e) = normalizeEntry_p2 e"
  by (simp add: normalizeEntry_twice normalizeEntry_p2_twice)


theorem normalizeEntry_idempotent_witness:
  "normalizeEntry
     (JObj [(''type'', JStr ''breakout_confirmation''), (''trigger'', JNum (Fin (203 / 2))),
            (''zone'', JObj [(''low'', JNum (Fin 95)), (''high'', JNum (Fin 98))])])
   = JObj [(''type'', JStr ''breakout_confirmation''), (''trigger'', JNum (Fin (203 / 2))),
           (''zone'', JObj [(''low'', JNum (Fin 95)), (''high'', JNum (Fin 98))])]
   \<and> normalizeEntry_p2
     (JObj [(''type'', JStr ''value_zone''),
            (''zone'', JObj [(''low'', JNum (Fin 95)), (''high'', JNum (Fin 98))]),
            (''price'', JNum (Fin (193 / 2)))])
   = JObj [(''type'', JStr ''value_zone''),
           (''zone'', JObj [(''low'', JNum (Fin 95)), (''high'', JNum (Fin 98))]),
           (''price'', JNum (Fin (193 / 2)))]"
proof -
  have a: "normalizeEntry string_entry =
     JObj [(''type'', JStr ''breakout_confirmation''), (''trigger'', JNum (Fin (203 / 2))),
           (''zone'', JObj [(''low'', JNum (Fin 95)), (''high'', JNum (Fin 98))])]"
    by code_simp
  have b: "normalizeEntry_p2 zone_entry =
     JObj [(''type'', JStr ''value_zone''),
           (''zone'', JObj [(''low'', JNum (Fin 95)), (''high'', JNum (Fin 98))]),
           (''price'', JNum (Fin (193 / 2)))]"
    by code_simp
  from normalizeEntry_idempotent [of string_entry] normalizeEntry_idempotent [of zone_entry]
  show ?thesis unfolding a b by blast
qed

section \<open>Derived metrics\<close>















section \<open>Review-priority ranking\<close>











section \<open>The provenance tag of a signals response\<close>

lemma returns_iff: "returns r \<longleftrightarrow> (\<exists>x. r = Inr x)"
  by (cases r) (simp_all add: returns_def)

lemma map_throw_total:
  assumes "\<And>x. x \<in> set xs \<Longrightarrow> \<exists>y. f x = Inr y"
  shows "\<exists>ys. map_throw f xs = Inr ys"
  using assms
proof (induction xs)
  case Nil
  then show ?case by simp
next
  case (Cons x xs)
  then obtain y ys where "f x = Inr y" "map_throw f xs = Inr ys"
    by (meson list.set_intros)
  then show ?case by simp
qed

lemma normalize_row_total: "\<not> nullish s \<Longrightarrow> \<exists>y. normalize_row s = Inr y"
  by (simp add: normalize_row_def must_prop_def Let_def)

lemma with_entry_p2_total: "\<not> nullish s \<Longrightarrow> \<exists>y. with_entry_p2 s = Inr y"
  by (simp add: with_entry_p2_def must_prop_def)

lemma GET_supabase:
  assumes "supabaseIfConfigured e" "store (route_query req) = Rows data"
    "list_all (\<lambda>s. \<not> nullish s) (rows_of data)"
  shows "response_source (GET h e fs store req) = Some (JStr ''supabase'')"
proof -
  obtain ys where "map_throw normalize_row (rows_of data) = Inr ys"
    using map_throw_total [of "rows_of data" normalize_row] normalize_row_total assms(3)
    by (auto simp: list_all_iff)
  then show ?thesis
    using assms(1,2)
    by (simp add: GET_def GET_try_def getSupabase_def supabaseIfConfigured_def response_source_def
          rows_of_def)
qed

lemma GET_after_error:
  assumes "supabaseIfConfigured e" "store (route_query req) = DbError msg"
    "returns (fallbackSignals h fs)"
  shows "response_source (GET h e fs store req) = Some (JStr ''fallback_after_db_error'')"
  using assms
  by (auto simp: GET_def GET_try_def getSupabase_def supabaseIfConfigured_def response_source_def
        returns_iff)

lemma GET_fallback:
  assumes "\<not> supabaseIfConfigured e \<or> store (route_query req) = Rejected err"
    "returns (fallbackSignals h fs)"
  shows "response_source (GET h e fs store req) = Some (JStr ''fallback'')"
  using assms
  by (auto simp: GET_def GET_try_def getSupabase_def supabaseIfConfigured_def response_source_def
        Let_def returns_iff)

lemma GET_p2_supabase:
  assumes "supabaseIfConfigured e" "store (query_p2 req) = Rows data"
    "list_all (\<lambda>s. \<not> nullish s) (rows_of data)"
  shows "response_source (GET_p2 h e fs store req) = Some (JStr ''supabase'')"
proof -
  obtain ys where "map_throw with_entry_p2 (rows_of data) = Inr ys"
    using map_throw_total [of "rows_of data" with_entry_p2] with_entry_p2_total assms(3)
    by (auto simp: list_all_iff)
  then show ?thesis
    using assms(1,2) by (simp add: GET_p2_def response_source_def rows_of_def)
qed

lemma GET_p2_after_error:
  assumes "supabaseIfConfigured e" "store (query_p2 req) = DbError msg"
    "returns (fallbackSignals_p2 h fs)"
  shows "response_source (GET_p2 h e fs store req) = Some (JStr ''fallback_after_db_error'')"
  using assms by (auto simp: GET_p2_def response_source_def returns_iff)

lemma GET_p2_fallback:
  assumes "\<not> supabaseIfConfigured e" "returns (fallbackSignals_p2 h fs)"
  shows "response_source (GET_p2 h e fs store req) = Some (JStr ''fallback'')"
  using assms by (auto simp: GET_p2_def response_source_def Let_def returns_iff)

text \<open>
  C1, as the code has it. The tags are \<open>supabase\<close>, \<open>fallback_after_db_error\<close> and
  \<open>fallback\<close>. In both routes the source is \<open>supabase\<close> when the store is configured and
  the query returns rows (each an object), and \<open>fallback_after_db_error\<close> when the query
  returns an error object and the snapshot loads. In route.ts it is \<open>fallback\<close> when the
  store is not configured or the query is rejected, and the snapshot loads; in the second
  route it is \<open>fallback\<close> when the store is not configured and the snapshot loads.
\<close>

theorem signals_source_tags:
  "(supabaseIfConfigured e \<and> store (route_query req) = Rows data
      \<and> list_all (\<lambda>s. \<not> nullish s) (rows_of data)
      \<longrightarrow> response_source (GET h e fs store req) = Some (JStr ''supabase''))
   \<and> (supabaseIfConfigured e \<and> store (route_query req) = DbError msg
      \<and> returns (fallbackSignals h fs)
      \<longrightarrow> response_source (GET h e fs store req) = Some (JStr ''fallback_after_db_error''))
   \<and> ((\<not> supabaseIfConfigured e \<or> store (route_query req) = Rejected err)
      \<and> returns (fallbackSignals h fs)
      \<longrightarrow> response_source (GET h e fs store req) = Some (JStr ''fallback''))
   \<and> (supabaseIfConfigured e \<and> store (query_p2 req) = Rows data
      \<and> list_all (\<lambda>s. \<not> nullish s) (rows_of data)
      \<longrightarrow> response_source (GET_p2 h e fs store req) = Some (JStr ''supabase''))
   \<and> (supabaseIfConfigured e \<and> store (query_p2 req) = DbError msg
      \<and> returns (fallbackSignals_p2 h fs)
      \<longrightarrow> response_source (GET_p2 h e fs store req) = Some (JStr ''fallback_after_db_error''))
   \<and> (\<not> supabaseIfConfigured e \<and> returns (fallbackSignals_p2 h fs)
      \<longrightarrow> response_source (GET_p2 h e fs store req) = Some (JStr ''fallback''))"
  using GET_supabase [of e store req data h fs] GET_after_error [of e store req msg h fs]
    GET_fallback [of e store req err h fs] GET_p2_supabase [of e store req data h fs]
    GET_p2_after_error [of e store req msg h fs] GET_p2_fallback [of e h fs store req]
  by blast

lemma example_facts:
  "supabaseIfConfigured store_env" "\<not> supabaseIfConfigured no_env"
  "returns (fallbackSignals a_host all_tiers)" "returns (fallbackSignals_p2 a_host all_tiers)"
  by code_simp+

theorem signals_source_tags_witness:
  "response_source (GET a_host store_env all_tiers echo_store plain_request)
     = Some (JStr ''supabase'')
   \<and> response_source (GET a_host store_env all_tiers broken_store plain_request)
     = Some (JStr ''fallback_after_db_error'')
   \<and> response_source (GET a_host no_env all_tiers echo_store plain_request)
     = Some (JStr ''fallback'')
   \<and> response_source (GET a_host store_env all_tiers unreachable_store plain_request)
     = Some (JStr ''fallback'')
   \<and> response_source (GET_p2 a_host store_env all_tiers echo_store plain_request)
     = Some (JStr ''supabase'')
   \<and> response_source (GET_p2 a_host store_env all_tiers broken_store plain_request)
     = Some (JStr ''fallback_after_db_error'')
   \<and> response_source (GET_p2 a_host no_env all_tiers echo_store plain_request)
     = Some (JStr ''fallback'')"
proof -
  note f = example_facts
  have 1: "response_source (GET a_host store_env all_tiers echo_store plain_request)
     = Some (JStr ''supabase'')"
    using signals_source_tags [where e = store_env and store = echo_store and req = plain_request
        and data = "Some [JObj [(''asked_limit'', JNum (rows_limit (route_query plain_request)))]]"
        and h = a_host and fs = all_tiers] f
    by (simp add: echo_store_def rows_of_def)
  have 2: "response_source (GET a_host store_env all_tiers broken_store plain_request)
     = Some (JStr ''fallback_after_db_error'')"
    using signals_source_tags [where e = store_env and store = broken_store
        and req = plain_request and msg = "''relation signals does not exist''"
        and h = a_host and fs = all_tiers] f
    by (simp add: broken_store_def)
  have 3: "response_source (GET a_host no_env all_tiers echo_store plain_request)
     = Some (JStr ''fallback'')"
    using signals_source_tags [where e = no_env and store = echo_store and req = plain_request
        and h = a_host and fs = all_tiers] f
    by simp
  have 4: "response_source (GET a_host store_env all_tiers unreachable_store plain_request)
     = Some (JStr ''fallback'')"
    using signals_source_tags [where e = store_env and store = unreachable_store
        and req = plain_request and err = "TypeError ''fetch failed''"
        and h = a_host and fs = all_tiers] f
    by (simp add: unreachable_store_def)
  have 5: "response_source (GET_p2 a_host store_env all_tiers echo_store plain_request)
     = Some (JStr ''supabase'')"
    using signals_source_tags [where e = store_env and store = echo_store and req = plain_request
        and data = "Some [JObj [(''asked_limit'', JNum (rows_limit (query_p2 plain_request)))]]"
        and h = a_host and fs = all_tiers] f
    by (simp add: echo_store_def rows_of_def)
  have 6: "response_source (GET_p2 a_host store_env all_tiers broken_store plain_request)
     = Some (JStr ''fallback_after_db_error'')"
    using signals_source_tags [where e = store_env and store = broken_store
        and req = plain_request and msg = "''relation signals does not exist''"
        and h = a_host and fs = all_tiers] f
    by (simp add: broken_store_def)
  have 7: "response_source (GET_p2 a_host no_env all_tiers echo_store plain_request)
     = Some (JStr ''fallback'')"
    using signals_source_tags [where e = no_env and store = echo_store and req = plain_request
        and h = a_host and fs = all_tiers] f
    by simp
  from 1 2 3 4 5 6 7 show ?thesis by blast
qed

text \<open>
  The claim as stated fails: a query that succeeds is tagged \<open>supabase\<close>, not \<open>primary\<close>, and
  a query that returns an error object is tagged \<open>fallback_after_db_error\<close>, not
  \<open>fallback_after_error\<close>.
\<close>

theorem source_is_not_primary:
  "response_source (GET a_host store_env all_tiers empty_store plain_request)
     = Some (JStr ''supabase'')
   \<and> response_source (GET a_host store_env all_tiers empty_store plain_request)
     \<noteq> Some (JStr ''primary'')
   \<and> response_source (GET a_host store_env all_tiers broken_store plain_request)
     = Some (JStr ''fallback_after_db_error'')
   \<and> response_source (GET a_host store_env all_tiers broken_store plain_request)
     \<noteq> Some (JStr ''fallback_after_error'')"
proof -
  have "response_source (GET a_host store_env all_tiers empty_store plain_request)
     = Some (JStr ''supabase'')"
    using GET_supabase [of store_env empty_store plain_request "Some []" a_host all_tiers]
      example_facts by (simp add: empty_store_def rows_of_def)
  moreover have "response_source (GET a_host store_env all_tiers broken_store plain_request)
     = Some (JStr ''fallback_after_db_error'')"
    using GET_after_error [of store_env broken_store plain_request _ a_host all_tiers]
      example_facts by (simp add: broken_store_def)
  ultimately show ?thesis by simp
qed


section \<open>The shared secrets\<close>










section \<open>The label writer\<close>

lemma first_missing_None:
  "first_missing b = None \<Longrightarrow>
     get_prop b ''confidence'' \<noteq> JUndefined \<and> get_prop b ''confidence'' \<noteq> JNull
     \<and> get_prop b ''confidence'' \<noteq> JStr []"
  by (auto simp: first_missing_def required_def simp del: get_prop.simps split: if_splits)

lemma label_row_confidence:
  "get_prop (label_row b) ''confidence'' = JNum (ToNumber (get_prop b ''confidence''))"
  by (simp add: label_row_def)

text \<open>
  C10, as the code has it. Whatever the label route answers, it leaves the table as it
  was or appends exactly one row, built from the request body; the confidence of that row
  is \<open>Number(body.confidence)\<close>, where \<open>body.confidence\<close> is present, not \<open>null\<close> and not the
  empty string. The writer checks no range.
\<close>

theorem label_POST_confidence:
  assumes "label_POST e st req = (r, st')"
  shows "teach_labels st' = teach_labels st
     \<or> (\<exists>b. body req = Some b \<and> teach_labels st' = teach_labels st @ [label_row b]
           \<and> get_prop (label_row b) ''confidence'' = JNum (ToNumber (get_prop b ''confidence''))
           \<and> get_prop b ''confidence'' \<noteq> JUndefined \<and> get_prop b ''confidence'' \<noteq> JNull
           \<and> get_prop b ''confidence'' \<noteq> JStr [])"
proof (cases "teach_labels st' = teach_labels st")
  case True
  then show ?thesis by simp
next
  case False
  with assms obtain b where b: "body req = Some b" "first_missing b = None"
    and ins: "snd (insert_label st (label_row b)) = st'"
    by (auto simp: label_POST_def split: sum.splits if_splits option.splits prod.splits
          db_result.splits)
  from ins False have "teach_labels st' = teach_labels st @ [label_row b]"
    by (auto simp: insert_label_def split: option.splits)
  with b first_missing_None [of b] label_row_confidence [of b] show ?thesis
    by blast
qed

lemma label_7_written:
  "teach_labels (snd (label_POST teach_env no_labels
      (label_request (Some ''Bearer s3cret'') (JStr ''7'')))) = [label_row (label_body (JStr ''7''))]"
  by code_simp

theorem label_POST_confidence_witness:
  "map (\<lambda>row. get_prop row ''confidence'')
     (teach_labels (snd (label_POST teach_env no_labels
        (label_request (Some ''Bearer s3cret'') (JStr ''7''))))) = [JNum (Fin 7)]"
proof -
  have n: "StringToNumber ''7'' = Fin 7" by code_simp
  have c: "get_prop (label_body (JStr ''7'')) ''confidence'' = JStr ''7''"
    by (simp add: label_body_def)
  from label_POST_confidence [OF surjective_pairing, of teach_env no_labels
      "label_request (Some ''Bearer s3cret'') (JStr ''7'')"]
  have "get_prop (label_row (label_body (JStr ''7''))) ''confidence'' = JNum (Fin 7)"
    unfolding label_7_written
    by (auto simp: no_labels_def label_request_def n c simp del: get_prop.simps)
  then show ?thesis
    by (simp add: label_7_written del: get_prop.simps)
qed

text \<open>
  The claim as stated fails: an authorized label request with confidence 11 is answered
  200 and its row is written with confidence 11.
\<close>

theorem confidence_11_is_written:
  "fst (label_POST teach_env no_labels (label_request (Some ''Bearer s3cret'') (JNum (Fin 11))))
     = Inr \<lparr>status = 200, payload = JObj [(''ok'', JBool True), (''id'', JNum (Fin 1))]\<rparr>
   \<and> map (\<lambda>row. get_prop row ''confidence'')
        (teach_labels (snd (label_POST teach_env no_labels
           (label_request (Some ''Bearer s3cret'') (JNum (Fin 11)))))) = [JNum (Fin 11)]
   \<and> \<not> (1 \<le> (11 :: real) \<and> (11 :: real) \<le> 10)"
  by code_simp


section \<open>The row limit asked of the store\<close>

lemmas parse_simps = StringToNumber_def trim_def is_ws_def parse_radix_literal_def
  parse_unsigned_decimal_def is_digit_in_def hex_val_def digits_val_def scale10_def
  parse_exponent_def

lemma parse_examples:
  "StringToNumber ''200'' = Fin 200" "StringToNumber ''-5'' = Fin (- 5)"
  "StringToNumber ''5000'' = Fin 5000" "StringToNumber ''300'' = Fin 300"
  by (simp_all add: parse_simps)

lemma store_limit_p2_clamped:
  assumes "limit_p2 req = Fin r"
  shows "store_limit_p2 req = Fin (min (max r 1) 1000)"
  using assms by (simp add: store_limit_p2_def Math_min_def Math_max_def min_def max_def)

text \<open>
  The second route clamps: a limit that reads as a finite number is sent to the store
  clamped into the interval from 1 to 1000, and an absent limit is sent as 200.
\<close>

theorem second_route_clamps_limit:
  "(limit_p2 req = Fin r \<longrightarrow>
      rows_limit (query_p2 req) = Fin (min (max r 1) 1000)
      \<and> jlt (Fin 0) (rows_limit (query_p2 req)) \<and> \<not> jlt (Fin 1000) (rows_limit (query_p2 req)))
   \<and> rows_limit (query_p2 \<lparr>limit_param = None, label_param = l\<rparr>) = Fin 200"
proof -
  have "rows_limit (query_p2 \<lparr>limit_param = None, label_param = l\<rparr>) = Fin 200"
    by (simp add: query_p2_def store_limit_p2_def limit_p2_def Math_min_def Math_max_def
          parse_examples)
  then show ?thesis
    using store_limit_p2_clamped [of req r] by (auto simp: query_p2_def)
qed

theorem second_route_clamps_limit_witness:
  "rows_limit (query_p2 \<lparr>limit_param = Some ''-5'', label_param = None\<rparr>) = Fin 1
   \<and> rows_limit (query_p2 \<lparr>limit_param = Some ''5000'', label_param = None\<rparr>) = Fin 1000
   \<and> rows_limit (query_p2 \<lparr>limit_param = Some ''300'', label_param = None\<rparr>) = Fin 300"
proof -
  have a: "limit_p2 \<lparr>limit_param = Some ''-5'', label_param = None\<rparr> = Fin (- 5)"
    and b: "limit_p2 \<lparr>limit_param = Some ''5000'', label_param = None\<rparr> = Fin 5000"
    and c: "limit_p2 \<lparr>limit_param = Some ''300'', label_param = None\<rparr> = Fin 300"
    by (simp_all add: limit_p2_def parse_examples)
  from second_route_clamps_limit [of "\<lparr>limit_param = Some ''-5'', label_param = None\<rparr>" "- 5"]
    second_route_clamps_limit [of "\<lparr>limit_param = Some ''5000'', label_param = None\<rparr>" 5000]
    second_route_clamps_limit [of "\<lparr>limit_param = Some ''300'', label_param = None\<rparr>" 300]
    a b c
  show ?thesis by simp
qed

text \<open>
  C7 at \<open>limit=-5\<close>. route.ts caps the limit at 1000 and has no lower bound: it asks the
  store for -5 rows, where the second route asks for 1.
\<close>

theorem route_asks_for_negative_limit:
  "rows_limit (route_query \<lparr>limit_param = Some ''-5'', label_param = None\<rparr>) = Fin (- 5)
   \<and> response_signals (GET a_host store_env all_tiers echo_store
        \<lparr>limit_param = Some ''-5'', label_param = None\<rparr>)
      = response_signals (Inr (JObj [(''signals'',
          JArr [JObj [(''asked_limit'', JNum (Fin (- 5))), (''entry'', JObj []),
                      (''stop'', JObj [(''price'', JNum (Fin 0))]), (''targets'', JArr []),
                      (''probability'', JNull), (''confidence'', JNull), (''why'', JNull),
                      (''chosen_stop'', JNull), (''stop_ladder'', JNull)]])]))
   \<and> rows_limit (query_p2 \<lparr>limit_param = Some ''-5'', label_param = None\<rparr>) = Fin 1"
proof -
  have "rows_limit (route_query \<lparr>limit_param = Some ''-5'', label_param = None\<rparr>) = Fin (- 5)"
    by (simp add: route_query_def route_limit_def parse_examples Math_min_def)
  moreover have "rows_limit (query_p2 \<lparr>limit_param = Some ''-5'', label_param = None\<rparr>) = Fin 1"
    by (simp add: query_p2_def store_limit_p2_def limit_p2_def parse_examples Math_min_def
          Math_max_def)
  moreover have "response_signals (GET a_host store_env all_tiers echo_store
        \<lparr>limit_param = Some ''-5'', label_param = None\<rparr>)
      = response_signals (Inr (JObj [(''signals'',
          JArr [JObj [(''asked_limit'', JNum (Fin (- 5))), (''entry'', JObj []),
                      (''stop'', JObj [(''price'', JNum (Fin 0))]), (''targets'', JArr []),
                      (''probability'', JNull), (''confidence'', JNull), (''why'', JNull),
                      (''chosen_stop'', JNull), (''stop_ladder'', JNull)]])]))"
    by code_simp
  ultimately show ?thesis by blast
qed

section \<open>Missing snapshot files\<close>

lemma push_tier_null: "push_tier h JNull l out = Inr out"
  by (simp add: push_tier_def)

lemma push_tier_no_cards: "push_tier h (JObj [(''cards'', JArr [])]) l out = Inr out"
  by (simp add: push_tier_def cardsFileToSignals_def must_prop_def coalesce_def)

lemma tryRead_failed:
  "fs (''market_ai_kit/output/'' @ f) = Missing \<or> fs (''market_ai_kit/output/'' @ f) = Unparsable
     \<Longrightarrow> tryRead fs f = JNull"
  by (auto simp: tryRead_def)

lemma fallback_failed_ready:
  assumes "tryRead fs ''ready.json'' = JNull"
  shows "fallbackSignals h fs =
     fallbackSignals h (fs(''market_ai_kit/output/ready.json'' := Parsed (JObj [(''cards'', JArr [])])))"
proof -
  let ?fs = "fs(''market_ai_kit/output/ready.json'' := Parsed (JObj [(''cards'', JArr [])]))"
  have r: "tryRead ?fs ''ready.json'' = JObj [(''cards'', JArr [])]"
    and e: "tryRead ?fs ''early.json'' = tryRead fs ''early.json''"
    and w: "tryRead ?fs ''watch.json'' = tryRead fs ''watch.json''"
    by (simp_all add: tryRead_def)
  show ?thesis
    unfolding fallbackSignals_def Let_def r e w assms
    by (simp only: push_tier_null push_tier_no_cards)
qed

lemma fallback_failed_early:
  assumes "tryRead fs ''early.json'' = JNull"
  shows "fallbackSignals h fs =
     fallbackSignals h (fs(''market_ai_kit/output/early.json'' := Parsed (JObj [(''cards'', JArr [])])))"
proof -
  let ?fs = "fs(''market_ai_kit/output/early.json'' := Parsed (JObj [(''cards'', JArr [])]))"
  have r: "tryRead ?fs ''ready.json'' = tryRead fs ''ready.json''"
    and e: "tryRead ?fs ''early.json'' = JObj [(''cards'', JArr [])]"
    and w: "tryRead ?fs ''watch.json'' = tryRead fs ''watch.json''"
    by (simp_all add: tryRead_def)
  show ?thesis
  proof (cases "push_tier h (tryRead fs ''ready.json'') ''READY_CONFIRMED'' []")
    case (Inl x)
    then show ?thesis unfolding fallbackSignals_def Let_def r e w assms by simp
  next
    case (Inr out)
    then show ?thesis
      unfolding fallbackSignals_def Let_def r e w assms
      by (simp add: push_tier_null push_tier_no_cards)
  qed
qed

lemma fallback_failed_watch:
  assumes "tryRead fs ''watch.json'' = JNull"
  shows "fallbackSignals h fs =
     fallbackSignals h (fs(''market_ai_kit/output/watch.json'' := Parsed (JObj [(''cards'', JArr [])])))"
proof -
  let ?fs = "fs(''market_ai_kit/output/watch.json'' := Parsed (JObj [(''cards'', JArr [])]))"
  have r: "tryRead ?fs ''ready.json'' = tryRead fs ''ready.json''"
    and e: "tryRead ?fs ''early.json'' = tryRead fs ''early.json''"
    and w: "tryRead ?fs ''watch.json'' = JObj [(''cards'', JArr [])]"
    by (simp_all add: tryRead_def)
  show ?thesis
  proof (cases "push_tier h (tryRead fs ''ready.json'') ''READY_CONFIRMED'' []")
    case (Inl x)
    then show ?thesis unfolding fallbackSignals_def Let_def r e w assms by simp
  next
    case ready: (Inr out)
    show ?thesis
    proof (cases "push_tier h (tryRead fs ''early.json'') ''EARLY'' out")
      case (Inl x)
      then show ?thesis unfolding fallbackSignals_def Let_def r e w assms ready by simp
    next
      case (Inr out')
      then show ?thesis
        unfolding fallbackSignals_def Let_def r e w assms ready
        by (simp add: push_tier_null push_tier_no_cards)
    qed
  qed
qed

text \<open>
  In route.ts a snapshot file that is missing or unparsable is tolerated: the fallback
  returns what it returns when that file holds no cards, so the other tiers are served.
\<close>

theorem fallback_tolerates_failed_read:
  assumes "f \<in> {''ready.json'', ''early.json'', ''watch.json''}"
    and "fs (''market_ai_kit/output/'' @ f) = Missing \<or> fs (''market_ai_kit/output/'' @ f) = Unparsable"
  shows "fallbackSignals h fs =
     fallbackSignals h (fs(''market_ai_kit/output/'' @ f := Parsed (JObj [(''cards'', JArr [])])))"
proof -
  have n: "tryRead fs f = JNull"
    using tryRead_failed [of fs f] assms(2) by blast
  from assms(1) consider "f = ''ready.json''" | "f = ''early.json''" | "f = ''watch.json''"
    by blast
  then show ?thesis
  proof cases
    case 1
    with n fallback_failed_ready [of fs h] show ?thesis by simp
  next
    case 2
    with n fallback_failed_early [of fs h] show ?thesis by simp
  next
    case 3
    with n fallback_failed_watch [of fs h] show ?thesis by simp
  qed
qed

theorem fallback_tolerates_failed_read_witness:
  "no_ready ''market_ai_kit/output/ready.json'' = Missing
   \<and> map (\<lambda>s. get_prop s ''label'')
       (case fallbackSignals a_host no_ready of Inr sigs \<Rightarrow> sigs | Inl x \<Rightarrow> [])
     = [JStr ''EARLY'']
   \<and> fallbackSignals a_host no_ready =
       fallbackSignals a_host
         (no_ready(''market_ai_kit/output/ready.json'' := Parsed (JObj [(''cards'', JArr [])])))"
proof -
  have m: "no_ready (''market_ai_kit/output/'' @ ''ready.json'') = Missing"
    by (simp add: no_ready_def)
  have l: "map (\<lambda>s. get_prop s ''label'')
       (case fallbackSignals a_host no_ready of Inr sigs \<Rightarrow> sigs | Inl x \<Rightarrow> []) = [JStr ''EARLY'']"
    by code_simp
  from fallback_tolerates_failed_read [of "''ready.json''" no_ready a_host] m l
  show ?thesis by simp
qed

text \<open>
  C8 with \<open>ready.json\<close> missing and the other two snapshot files in place, the store not
  configured. The second route has no handler around its reads: the request fails. route.ts
  serves the signals of the remaining tiers.
\<close>

theorem second_route_fails_on_missing_file:
  "no_ready ''public/data/ready.json'' = Missing
   \<and> no_ready ''public/data/early.json'' = Parsed early_file
   \<and> no_ready ''public/data/watch.json'' = Parsed watch_file
   \<and> fallbackSignals_p2 a_host no_ready = Inl (Error ''ENOENT: no such file or directory'')
   \<and> GET_p2 a_host no_env no_ready empty_store plain_request
       = Inl (Error ''ENOENT: no such file or directory'')
   \<and> response_source (GET a_host no_env no_ready empty_store plain_request)
       = Some (JStr ''fallback'')"
  by code_simp

section \<open>Pass-through fields of a card\<close>

text \<open>
  C2 on a card that carries a \<open>label\<close> of its own next to \<open>labels\<close>. The computed label is
  the first of \<open>labels\<close>; the card is spread after the computed fields, so the signal's
  label is the card's.
\<close>

theorem card_label_overwrites_computed_label:
  "get_prop labelled_card ''labels'' = JArr [JStr ''READY_CONFIRMED'']
   \<and> get_prop labelled_card ''label'' = JStr ''CUSTOM''
   \<and> (case cardToSignal labelled_card (JStr ''2024-02-02T00:00:00Z'') ''WATCH'' of
         Inr s \<Rightarrow> get_prop s ''label''
       | Inl x \<Rightarrow> JUndefined) = JStr ''CUSTOM''"
  by code_simp


lemma map_of_obj_assign: "map_of (obj_assign base ext) = map_of base ++ map_of (rev ext)"
proof (induction ext arbitrary: base)
  case Nil
  then show ?case by (simp add: obj_assign_def)
next
  case (Cons kv ext)
  obtain k v where kv: "kv = (k, v)" by (cases kv)
  have "obj_assign base (kv # ext) = obj_assign (obj_set base k v) ext"
    by (simp add: obj_assign_def kv)
  then show ?case
    using Cons.IH [of "obj_set base k v"]
    by (simp add: kv map_of_obj_set map_add_upd_left fun_eq_iff map_add_def split: option.splits)
qed

lemma map_of_rev_distinct: "distinct (map fst xs) \<Longrightarrow> map_of (rev xs) = map_of xs"
proof (induction xs)
  case Nil
  then show ?case by simp
next
  case (Cons kv xs)
  then have "map_of xs (fst kv) = None"
    by (simp add: map_of_eq_None_iff)
  with Cons show ?case
    by (cases kv) (auto simp: fun_eq_iff map_add_def split: option.splits)
qed

lemma card_field_wins:
  assumes "cardToSignal (JObj kvs) a d = Inr s"
    and "distinct (map fst kvs)" and "map_of kvs k = Some v"
  shows "get_prop s k = v"
proof -
  from assms(1) obtain base where "s = JObj (obj_assign base kvs)"
    by (auto simp: cardToSignal_def Let_def must_prop_def split: sum.splits)
  moreover have "map_of (rev kvs) k = Some v"
    using assms(2,3) by (simp add: map_of_rev_distinct)
  ultimately show ?thesis
    by (simp add: map_of_obj_assign)
qed

text \<open>
  What the code does with pass-through fields: every field the card object carries (its
  keys distinct, as in any object) is the field of the signal, also when the normalizer
  computed a field of that name.
\<close>

theorem card_fields_pass_through_last:
  assumes "cardToSignal (JObj kvs) a d = Inr s"
    and "distinct (map fst kvs)" and "map_of kvs k = Some v"
  shows "get_prop s k = v"
  using assms by (rule card_field_wins)

theorem card_fields_pass_through_last_witness:
  "(case cardToSignal labelled_card (JStr ''2024-02-02T00:00:00Z'') ''WATCH'' of
      Inr s \<Rightarrow> get_prop s ''label'' | Inl x \<Rightarrow> JUndefined) = JStr ''CUSTOM''"
proof -
  obtain kvs where c: "labelled_card = JObj kvs" and d: "distinct (map fst kvs)"
    and l: "map_of kvs ''label'' = Some (JStr ''CUSTOM'')"
    by (simp add: labelled_card_def abc_card_def)
  have "returns (cardToSignal labelled_card (JStr ''2024-02-02T00:00:00Z'') ''WATCH'')"
    by code_simp
  then obtain s where s: "cardToSignal (JObj kvs) (JStr ''2024-02-02T00:00:00Z'') ''WATCH'' = Inr s"
    unfolding returns_iff c by blast
  from card_fields_pass_through_last [OF s d l] s show ?thesis
    by (simp add: c)
qed


end
